theory Spec2Isabelle
  imports Complex_Main "HOL-Library.Sublist"
begin

section \<open>Python values\<close>

text \<open>
  Python numbers (\<open>int\<close> and \<open>float\<close>) are modelled as exact rationals: every threshold,
  weight and penalty of the engine is a decimal literal, and the properties below are about
  the rule tables, not about binary rounding. A string built by an f-string is kept as its
  template together with the numbers substituted into it (\<open>Fmt\<close>); a constant string is
  \<open>Lit\<close>. Non-ASCII characters of the source strings (the degree sign, the icons) are
  transliterated.
\<close>

datatype pystr = Lit string | Fmt string "rat list"

text \<open>\<open>d.get(key, default)\<close>: an absent key is \<open>None\<close>.\<close>

definition dict_get :: "'a option \<Rightarrow> 'a \<Rightarrow> 'a" where
  "dict_get field dflt = (case field of None \<Rightarrow> dflt | Some v \<Rightarrow> v)"

text \<open>
  \<open>list.sort(key=..., reverse=True)\<close>: Python's sort is stable also when reversed, that is,
  elements with equal keys keep their original order. This is the stable ascending sort on
  the negated key.
\<close>

definition sort_reverse :: "('a \<Rightarrow> 'k::{linorder,uminus}) \<Rightarrow> 'a list \<Rightarrow> 'a list" where
  "sort_reverse key xs = sort_key (\<lambda>x. - key x) xs"

section \<open>Data model (models.py, db.py)\<close>

text \<open>The pydantic model \<open>WeatherData\<close>: every field is present.\<close>

record WeatherData =
  temperature :: rat
  humidity :: rat
  wind_speed :: rat
  wind_direction :: rat
  precipitation :: rat
  cloud_cover :: rat
  visibility :: rat
  uv_index :: rat
  condition :: string

text \<open>
  The \<open>weather_data\<close> dictionary handed to the scoring and clothing services: each key the
  services read may be absent (\<open>None\<close>).
\<close>

record weather_data =
  temperature :: "rat option"
  humidity :: "rat option"
  wind_speed :: "rat option"
  precipitation :: "rat option"
  cloud_cover :: "rat option"
  visibility :: "rat option"
  uv_index :: "rat option"
  condition :: "string option"

text \<open>
  A row of the \<open>events\<close> table as \<open>get_events\<close> returns it; \<open>weather_requirements\<close> is the
  decoded JSON object, a dictionary from requirement names to thresholds.
\<close>

record event =
  id :: string
  name :: string
  category :: string
  description :: string
  weather_requirements :: "string \<rightharpoonup> rat"
  min_comfort_score :: rat

record EventSuitabilityScore =
  event_id :: string
  event_name :: string
  score :: rat
  reasons :: "pystr list"
  recommendations :: "string list"

section \<open>EventScoringService (scoring.py)\<close>

text \<open>
  The running state of \<open>_calculate_score\<close>: the local variables \<open>score\<close>, \<open>reasons\<close> and
  \<open>recommendations\<close>, which is also the tuple it returns.
\<close>

type_synonym score_state = "rat \<times> pystr list \<times> string list"

text \<open>Temperature scoring (lines 68-81).\<close>

definition temperature_scoring :: "(string \<rightharpoonup> rat) \<Rightarrow> rat \<Rightarrow> score_state \<Rightarrow> score_state" where
  "temperature_scoring requirements temp st =
    (let st1 =
       (case requirements ''min_temp'' of
          None \<Rightarrow> st
        | Some min_temp \<Rightarrow>
            (case st of (sc, rs, recs) \<Rightarrow>
              if temp < min_temp
              then (sc - (min_temp - temp) * 5,
                    rs @ [Fmt ''Temperature too low ({temp} C < {min_temp} C)'' [temp, min_temp]],
                    recs @ [''Consider indoor alternatives or wait for warmer weather''])
              else st))
     in
       (case requirements ''max_temp'' of
          None \<Rightarrow> st1
        | Some max_temp \<Rightarrow>
            (case st1 of (sc, rs, recs) \<Rightarrow>
              if temp > max_temp
              then (sc - (temp - max_temp) * 3,
                    rs @ [Fmt ''Temperature too high ({temp} C > {max_temp} C)'' [temp, max_temp]],
                    recs @ [''Consider early morning or evening timing''])
              else st1)))"

text \<open>Wind scoring (lines 83-96).\<close>

definition wind_scoring :: "(string \<rightharpoonup> rat) \<Rightarrow> rat \<Rightarrow> score_state \<Rightarrow> score_state" where
  "wind_scoring requirements wind st =
    (let st1 =
       (case requirements ''min_wind'' of
          None \<Rightarrow> st
        | Some min_wind \<Rightarrow>
            (case st of (sc, rs, recs) \<Rightarrow>
              if wind < min_wind
              then (sc - (min_wind - wind) * 2,
                    rs @ [Fmt ''Wind too light ({wind_speed} km/h < {min_wind} km/h)'' [wind, min_wind]],
                    recs @ [''Wait for windier conditions or consider alternative activities''])
              else st))
     in
       (case requirements ''max_wind'' of
          None \<Rightarrow> st1
        | Some max_wind \<Rightarrow>
            (case st1 of (sc, rs, recs) \<Rightarrow>
              if wind > max_wind
              then (sc - (wind - max_wind) * 4,
                    rs @ [Fmt ''Wind too strong ({wind_speed} km/h > {max_wind} km/h)'' [wind, max_wind]],
                    recs @ [''Consider indoor alternatives or wait for calmer conditions''])
              else st1)))"

text \<open>Precipitation scoring (lines 98-104).\<close>

definition precipitation_scoring :: "(string \<rightharpoonup> rat) \<Rightarrow> rat \<Rightarrow> score_state \<Rightarrow> score_state" where
  "precipitation_scoring requirements precip st =
    (case requirements ''max_precipitation'' of
       None \<Rightarrow> st
     | Some max_precipitation \<Rightarrow>
         (case st of (sc, rs, recs) \<Rightarrow>
           if precip > max_precipitation
           then (sc - (precip - max_precipitation) * 8,
                 rs @ [Fmt ''Too much precipitation ({precipitation}mm > {max_precipitation}mm)''
                              [precip, max_precipitation]],
                 recs @ [''Consider indoor alternatives or wait for drier conditions''])
           else st))"

text \<open>
  Visibility scoring (lines 106-113): \<open>visibility\<close> is read from the dictionary, with its
  default 10, only when the requirement is present.
\<close>

definition visibility_scoring :: "(string \<rightharpoonup> rat) \<Rightarrow> weather_data \<Rightarrow> score_state \<Rightarrow> score_state" where
  "visibility_scoring requirements w st =
    (case requirements ''min_visibility'' of
       None \<Rightarrow> st
     | Some min_visibility \<Rightarrow>
         (let vis = dict_get (visibility w) 10 in
          case st of (sc, rs, recs) \<Rightarrow>
           if vis < min_visibility
           then (sc - (min_visibility - vis) * 3,
                 rs @ [Fmt ''Poor visibility ({visibility}km < {min_visibility}km)'' [vis, min_visibility]],
                 recs @ [''Wait for clearer conditions''])
           else st))"

text \<open>Category-based adjustments (lines 115-134): one \<open>if\<close>/\<open>elif\<close> chain.\<close>

definition category_adjustments :: "string \<Rightarrow> string \<Rightarrow> rat \<Rightarrow> rat \<Rightarrow> score_state \<Rightarrow> score_state" where
  "category_adjustments cat cond wind temp st =
    (case st of (sc, rs, recs) \<Rightarrow>
      if cat = ''sunny_friendly'' \<and> cond \<in> set [''rainy'', ''snowy'', ''stormy'']
      then (sc - 30,
            rs @ [Lit ''Weather not suitable for outdoor sunny activities''],
            recs @ [''Consider indoor alternatives or wait for better weather''])
      else if cat = ''rain_compatible'' \<and> cond \<in> set [''sunny'', ''cloudy'']
      then (sc + 10,
            rs @ [Lit ''Perfect weather for this indoor activity''],
            recs)
      else if cat = ''wind_based'' \<and> wind < 5
      then (sc - 20,
            rs @ [Lit ''Insufficient wind for wind-based activities''],
            recs @ [''Wait for windier conditions''])
      else if cat = ''cold_weather'' \<and> temp > 10
      then (sc - 25,
            rs @ [Lit ''Too warm for cold-weather activities''],
            recs @ [''Consider winter alternatives or wait for colder weather''])
      else st)"

text \<open>Comfort adjustments (lines 136-145).\<close>

definition comfort_adjustments :: "rat \<Rightarrow> rat \<Rightarrow> score_state \<Rightarrow> score_state" where
  "comfort_adjustments hum wind st =
    (let st1 =
       (case st of (sc, rs, recs) \<Rightarrow>
         if hum > 80
         then (sc - 10,
               rs @ [Lit ''High humidity may cause discomfort''],
               recs @ [''Stay hydrated and take breaks''])
         else st)
     in
       (case st1 of (sc, rs, recs) \<Rightarrow>
         if wind > 20
         then (sc - 15,
               rs @ [Lit ''Strong winds may cause discomfort''],
               recs @ [''Dress appropriately and secure loose items''])
         else st1))"

text \<open>The band of the final score (lines 150-158).\<close>

definition summary_reason :: "rat \<Rightarrow> pystr" where
  "summary_reason final_score =
    (if final_score \<ge> 80 then Lit ''Excellent weather conditions for this event''
     else if final_score \<ge> 60 then Lit ''Good weather conditions for this event''
     else if final_score \<ge> 40 then Lit ''Moderate weather conditions - proceed with caution''
     else Lit ''Poor weather conditions for this event'')"

text \<open>Bounding the score and appending the summary (lines 147-160).\<close>

definition bound_and_summarise :: "score_state \<Rightarrow> score_state" where
  "bound_and_summarise st =
    (case st of (sc, rs, recs) \<Rightarrow>
      (let bounded = max 0 (min 100 sc)
       in (bounded, rs @ [summary_reason bounded], recs)))"

text \<open>\<open>_calculate_score\<close> (lines 55-160).\<close>

definition calculate_score :: "event \<Rightarrow> weather_data \<Rightarrow> score_state" where
  "calculate_score ev w =
    (let requirements = weather_requirements ev;
         temp = dict_get (temperature w) 20;
         hum = dict_get (humidity w) 50;
         wind = dict_get (wind_speed w) 10;
         precip = dict_get (precipitation w) 0;
         cond = dict_get (condition w) ''sunny''
     in bound_and_summarise
         (comfort_adjustments hum wind
           (category_adjustments (category ev) cond wind temp
             (visibility_scoring requirements w
               (precipitation_scoring requirements precip
                 (wind_scoring requirements wind
                   (temperature_scoring requirements temp
                     (100, [], []))))))))"

text \<open>
  \<open>get_event_recommendations\<close> (lines 25-53). \<open>categories\<close> is \<open>Optional[List[str]]\<close>; the
  test \<open>if categories:\<close> is Python truthiness, false for \<open>None\<close> and for the empty list.
  The catalog rows are well-typed records here, so the \<open>except\<close> branch, which skips a row
  whose evaluation raises, has no input that reaches it.
\<close>

definition filtered_events :: "event list \<Rightarrow> string list option \<Rightarrow> event list" where
  "filtered_events events categories =
    (case categories of
       None \<Rightarrow> events
     | Some cs \<Rightarrow> if cs = [] then events else filter (\<lambda>e. category e \<in> set cs) events)"

definition make_result :: "event \<Rightarrow> score_state \<Rightarrow> EventSuitabilityScore" where
  "make_result ev st =
    (case st of (s, rs, recs) \<Rightarrow>
      \<lparr>event_id = id ev, event_name = name ev, score = s, reasons = rs, recommendations = recs\<rparr>)"

fun collect :: "weather_data \<Rightarrow> event list \<Rightarrow> EventSuitabilityScore list" where
  "collect w [] = []"
| "collect w (ev # evs) =
    (let st = calculate_score ev w
     in if fst st \<ge> min_comfort_score ev
        then make_result ev st # collect w evs
        else collect w evs)"

definition get_event_recommendations ::
  "event list \<Rightarrow> weather_data \<Rightarrow> string \<Rightarrow> string list option \<Rightarrow> EventSuitabilityScore list" where
  "get_event_recommendations events w forecast_type categories =
    take 10 (sort_reverse score (collect w (filtered_events events categories)))"

section \<open>ClothingRecommendationService (clothing.py)\<close>

datatype ClothingItem =
  UMBRELLA | SUNGLASSES | JACKET | SUNSCREEN | BOOTS | HAT | GLOVES | SCARF

record ClothingRecommendation =
  item :: ClothingItem
  priority :: int
  reason :: pystr
  icon :: string

record OutfitRecommendation =
  location :: string
  forecast_type :: string
  recommendations :: "ClothingRecommendation list"
  comfort_tips :: "string list"

text \<open>The icon table of \<open>__init__\<close>; each glyph is written as its code point.\<close>

fun clothing_icons :: "ClothingItem \<Rightarrow> string" where
  "clothing_icons UMBRELLA = ''U+2614''"
| "clothing_icons SUNGLASSES = ''U+1F576''"
| "clothing_icons JACKET = ''U+1F9E5''"
| "clothing_icons SUNSCREEN = ''U+1F9F4''"
| "clothing_icons BOOTS = ''U+1F462''"
| "clothing_icons HAT = ''U+1F452''"
| "clothing_icons GLOVES = ''U+1F9E4''"
| "clothing_icons SCARF = ''U+1F9E3''"

definition rec :: "ClothingItem \<Rightarrow> int \<Rightarrow> pystr \<Rightarrow> ClothingRecommendation" where
  "rec i p r = \<lparr>item = i, priority = p, reason = r, icon = clothing_icons i\<rparr>"

text \<open>
  The running state of \<open>get_recommendations\<close>: the lists \<open>recommendations\<close> and
  \<open>comfort_tips\<close>. Each rule block extends both.
\<close>

type_synonym outfit_state = "ClothingRecommendation list \<times> string list"

definition extend_lists :: "outfit_state \<Rightarrow> ClothingRecommendation list \<Rightarrow> string list \<Rightarrow> outfit_state" where
  "extend_lists st items tips = (fst st @ items, snd st @ tips)"

text \<open>Temperature-based recommendations (lines 30-134): one \<open>if\<close>/\<open>elif\<close> chain.\<close>

definition temperature_rules :: "rat \<Rightarrow> outfit_state \<Rightarrow> outfit_state" where
  "temperature_rules temp st =
    (if temp < 0 then
       extend_lists st
         [rec JACKET 5 (Lit ''Very cold weather - heavy winter jacket essential''),
          rec GLOVES 5 (Lit ''Protect hands from freezing temperatures''),
          rec SCARF 4 (Lit ''Protect neck and face from cold''),
          rec BOOTS 4 (Lit ''Warm, waterproof footwear essential'')]
         [''Layer up with thermal clothing'',
          ''Keep extremities warm to prevent frostbite'']
     else if temp < 10 then
       extend_lists st
         [rec JACKET 4 (Lit ''Cold weather - warm jacket recommended''),
          rec GLOVES 3 (Lit ''Protect hands from cold''),
          rec BOOTS 3 (Lit ''Warm, comfortable footwear'')]
         [''Wear layers for easy temperature adjustment'']
     else if temp < 20 then
       extend_lists st
         [rec JACKET 2 (Lit ''Light jacket for cool weather'')]
         [''Dress in layers for comfort'']
     else if temp > 30 then
       extend_lists st
         [rec SUNGLASSES 4 (Lit ''Protect eyes from bright sun''),
          rec SUNSCREEN 5 (Lit ''Essential protection from UV rays''),
          rec HAT 4 (Lit ''Protect head from sun and heat'')]
         [''Wear light, breathable fabrics'',
          ''Stay hydrated and take breaks in shade'']
     else if temp > 25 then
       extend_lists st
         [rec SUNGLASSES 3 (Lit ''Protect eyes from sun''),
          rec SUNSCREEN 4 (Lit ''Protect skin from UV rays'')]
         [''Wear light, comfortable clothing'']
     else st)"

text \<open>Precipitation-based recommendations (lines 136-176).\<close>

definition precipitation_rules :: "rat \<Rightarrow> outfit_state \<Rightarrow> outfit_state" where
  "precipitation_rules precip st =
    (if precip > 5 then
       extend_lists st
         [rec UMBRELLA 5 (Lit ''Heavy rain expected - umbrella essential''),
          rec BOOTS 4 (Lit ''Waterproof footwear for wet conditions''),
          rec JACKET 4 (Lit ''Waterproof jacket recommended'')]
         [''Avoid cotton clothing - it stays wet longer'',
          ''Consider waterproof bags for electronics'']
     else if precip > 1 then
       extend_lists st
         [rec UMBRELLA 3 (Lit ''Light rain expected''),
          rec JACKET 2 (Lit ''Light rain protection'')]
         [''Quick-drying fabrics recommended'']
     else st)"

text \<open>Wind-based recommendations (lines 178-206).\<close>

definition wind_rules :: "rat \<Rightarrow> outfit_state \<Rightarrow> outfit_state" where
  "wind_rules wind st =
    (if wind > 20 then
       extend_lists st
         [rec JACKET 3 (Lit ''Windy conditions - windproof jacket recommended''),
          rec HAT 3 (Lit ''Secure hat to protect from wind'')]
         [''Secure loose items and hair'',
          ''Consider windproof layers'']
     else if wind > 15 then
       extend_lists st
         [rec JACKET 2 (Lit ''Moderate wind - light windbreaker'')]
         [''Dress in layers for wind protection'']
     else st)"

text \<open>UV index recommendations (lines 208-248).\<close>

definition uv_rules :: "rat \<Rightarrow> outfit_state \<Rightarrow> outfit_state" where
  "uv_rules uv st =
    (if uv > 7 then
       extend_lists st
         [rec SUNSCREEN 5 (Fmt ''Very high UV index ({uv_index}) - sunscreen essential'' [uv]),
          rec SUNGLASSES 4 (Lit ''Protect eyes from intense UV''),
          rec HAT 4 (Lit ''Protect head from intense sun'')]
         [''Seek shade during peak sun hours (10 AM - 4 PM)'',
          ''Reapply sunscreen every 2 hours'']
     else if uv > 5 then
       extend_lists st
         [rec SUNSCREEN 4 (Fmt ''High UV index ({uv_index}) - sunscreen recommended'' [uv]),
          rec SUNGLASSES 3 (Lit ''Protect eyes from UV'')]
         [''Apply sunscreen before going outside'']
     else st)"

text \<open>Humidity-based tips (lines 250-255) and the tips by forecast type (lines 257-262).\<close>

definition humidity_tips :: "rat \<Rightarrow> outfit_state \<Rightarrow> outfit_state" where
  "humidity_tips hum st =
    (if hum > 80 then
       extend_lists st []
         [''High humidity - wear breathable fabrics'',
          ''Stay hydrated and take frequent breaks'']
     else if hum < 30 then
       extend_lists st [] [''Low humidity - use moisturizer and stay hydrated'']
     else st)"

definition forecast_type_tips :: "string \<Rightarrow> outfit_state \<Rightarrow> outfit_state" where
  "forecast_type_tips ftype st =
    (if ftype = ''long_term'' then
       extend_lists st []
         [''Plan ahead for seasonal weather changes'',
          ''Consider versatile clothing options'']
     else extend_lists st [] [''Check weather updates throughout the day''])"

text \<open>\<open>get_recommendations\<close> (lines 17-272).\<close>

definition get_recommendations :: "weather_data \<Rightarrow> string \<Rightarrow> string \<Rightarrow> OutfitRecommendation" where
  "get_recommendations w ftype loc =
    (let temp = dict_get (temperature w) 20;
         hum = dict_get (humidity w) 50;
         wind = dict_get (wind_speed w) 10;
         precip = dict_get (precipitation w) 0;
         cond = dict_get (condition w) ''sunny'';
         uv = dict_get (uv_index w) 5;
         st = forecast_type_tips ftype
               (humidity_tips hum
                 (uv_rules uv
                   (wind_rules wind
                     (precipitation_rules precip
                       (temperature_rules temp ([], []))))))
     in \<lparr>location = loc, forecast_type = ftype,
         recommendations = sort_reverse priority (fst st),
         comfort_tips = snd st\<rparr>)"

section \<open>WeatherService (services.py)\<close>

text \<open>\<open>_calculate_comfort_index\<close> (lines 235-256), on a fully populated \<open>WeatherData\<close>.\<close>

definition calculate_comfort_index :: "WeatherData \<Rightarrow> rat" where
  "calculate_comfort_index weather =
    (let temp_score = max 0 (100 - \<bar>WeatherData.temperature weather - 45 / 2\<bar> * 4);
         humidity_score = max 0 (100 - \<bar>WeatherData.humidity weather - 50\<bar> * (3 / 2));
         wind_score = max 0 (100 - \<bar>WeatherData.wind_speed weather - 8\<bar> * 5);
         precip_penalty = min 50 (WeatherData.precipitation weather * 10);
         uv_penalty = min 30 (max 0 (WeatherData.uv_index weather - 6) * 5);
         visibility_penalty = min 20 (max 0 (10 - WeatherData.visibility weather) * 2);
         comfort = (temp_score + humidity_score + wind_score) / 3
                     - precip_penalty - uv_penalty - visibility_penalty
     in max 0 (min 100 comfort))"

text \<open>
  \<open>round(x, ndigits)\<close> on an exact number: to the nearest multiple of \<open>10^-ndigits\<close>, a tie
  going to the even one.
\<close>

definition py_round :: "rat \<Rightarrow> nat \<Rightarrow> rat" where
  "py_round x ndigits =
    (let y = x * 10 ^ ndigits;
         f = \<lfloor>y\<rfloor>;
         d = y - of_int f
     in (if d < 1 / 2 then of_int f
         else if d > 1 / 2 then of_int (f + 1)
         else if even f then of_int f
         else of_int (f + 1)) / 10 ^ ndigits)"

text \<open>
  \<open>random.uniform(a, b)\<close> is \<open>a + (b - a) * random()\<close>, with \<open>random()\<close> in \<open>[0, 1)\<close>. The
  values \<open>random()\<close> returns are an input of the model: \<open>_generate_monthly_outlook\<close> draws six
  times, in the order of the fields below.
\<close>

definition uniform :: "rat \<Rightarrow> rat \<Rightarrow> rat \<Rightarrow> rat" where
  "uniform a b u = a + (b - a) * u"

record draws =
  u_hot :: rat
  u_cold :: rat
  u_wet :: rat
  u_windy :: rat
  u_temp :: rat
  u_precip :: rat

record ClimateProbability =
  very_hot :: rat
  very_cold :: rat
  very_wet :: rat
  very_windy :: rat
  uncomfortable :: rat

record MonthlyOutlook =
  month :: int
  month_name :: string
  probabilities :: ClimateProbability
  avg_temperature :: rat
  avg_precipitation :: rat

text \<open>
  The season flags of \<open>_generate_monthly_outlook\<close> (lines 288-297), after the swap for
  \<open>lat \<le> 0\<close>: \<open>(is_winter, is_spring, is_summer, is_fall)\<close>.
\<close>

definition season_flags :: "int \<Rightarrow> rat \<Rightarrow> bool \<times> bool \<times> bool \<times> bool" where
  "season_flags m lat =
    (let is_winter = m \<in> set [12, 1, 2];
         is_spring = m \<in> set [3, 4, 5];
         is_summer = m \<in> set [6, 7, 8];
         is_fall = m \<in> set [9, 10, 11];
         is_northern_hemisphere = lat > 0
     in if \<not> is_northern_hemisphere
        then (is_summer, is_fall, is_winter, is_spring)
        else (is_winter, is_spring, is_summer, is_fall))"

text \<open>
  The unrounded probabilities \<open>(very_hot, very_cold, very_wet, very_windy)\<close> drawn at lines
  300-319.
\<close>

definition base_draws :: "int \<Rightarrow> rat \<Rightarrow> draws \<Rightarrow> rat \<times> rat \<times> rat \<times> rat" where
  "base_draws m lat r =
    (case season_flags m lat of (is_winter, is_spring, is_summer, is_fall) \<Rightarrow>
      if is_summer then
        (uniform (4 / 10) (8 / 10) (u_hot r), uniform 0 (1 / 10) (u_cold r),
         uniform (1 / 10) (4 / 10) (u_wet r), uniform (2 / 10) (5 / 10) (u_windy r))
      else if is_winter then
        (uniform 0 (1 / 10) (u_hot r), uniform (3 / 10) (7 / 10) (u_cold r),
         uniform (2 / 10) (6 / 10) (u_wet r), uniform (3 / 10) (6 / 10) (u_windy r))
      else if is_spring then
        (uniform (1 / 10) (3 / 10) (u_hot r), uniform (1 / 10) (3 / 10) (u_cold r),
         uniform (2 / 10) (5 / 10) (u_wet r), uniform (3 / 10) (6 / 10) (u_windy r))
      else
        (uniform (1 / 10) (4 / 10) (u_hot r), uniform (1 / 10) (4 / 10) (u_cold r),
         uniform (2 / 10) (5 / 10) (u_wet r), uniform (2 / 10) (5 / 10) (u_windy r)))"

text \<open>The averages \<open>(avg_temp, avg_precip)\<close> drawn at lines 332-344.\<close>

definition avg_draws :: "int \<Rightarrow> rat \<Rightarrow> draws \<Rightarrow> rat \<times> rat" where
  "avg_draws m lat r =
    (case season_flags m lat of (is_winter, is_spring, is_summer, is_fall) \<Rightarrow>
      if is_summer then (uniform 20 30 (u_temp r), uniform 20 80 (u_precip r))
      else if is_winter then (uniform (- 5) 10 (u_temp r), uniform 30 100 (u_precip r))
      else if is_spring then (uniform 10 20 (u_temp r), uniform 40 90 (u_precip r))
      else (uniform 5 20 (u_temp r), uniform 30 80 (u_precip r)))"

text \<open>
  \<open>_generate_monthly_outlook\<close> (lines 286-350), wrapped into the \<open>MonthlyOutlook\<close> that
  \<open>get_long_term_forecast\<close> builds from it (lines 269-276). The month name is a parameter:
  \<open>get_long_term_forecast\<close> reads it from its table, for a month between 1 and 12.
\<close>

definition generate_monthly_outlook :: "int \<Rightarrow> string \<Rightarrow> rat \<Rightarrow> rat \<Rightarrow> draws \<Rightarrow> MonthlyOutlook" where
  "generate_monthly_outlook m mname lat lon r =
    (case base_draws m lat r of (hot, cold, wet, windy) \<Rightarrow>
     case avg_draws m lat r of (avg_temp, avg_precip) \<Rightarrow>
      (let unc = min 1 ((hot + cold + windy) / 3 + wet * (1 / 2))
       in \<lparr>month = m, month_name = mname,
           probabilities =
             \<lparr>very_hot = py_round hot 2, very_cold = py_round cold 2,
              very_wet = py_round wet 2, very_windy = py_round windy 2,
              uncomfortable = py_round unc 2\<rparr>,
           avg_temperature = py_round avg_temp 1,
           avg_precipitation = py_round avg_precip 1\<rparr>))"

section \<open>SeasonalProbabilityModel (ml/probabilities.py)\<close>

datatype py_error = KeyError | IndexError

text \<open>
  \<open>climate_zones\<close> (lines 17-50), in the insertion order in which the loop of
  \<open>get_climate_zone\<close> visits it; only \<open>lat_range\<close> is ever read.
\<close>

definition climate_zones :: "(string \<times> rat \<times> rat) list" where
  "climate_zones =
    [(''tropical'', (- (47 / 2), 47 / 2)),
     (''subtropical'', (47 / 2, 35)),
     (''temperate'', (35, 50)),
     (''continental'', (50, 70)),
     (''polar'', (70, 90))]"

text \<open>The loop of \<open>get_climate_zone\<close> (lines 56-59): the first zone whose closed range holds.\<close>

fun first_zone :: "rat \<Rightarrow> (string \<times> rat \<times> rat) list \<Rightarrow> string option" where
  "first_zone abs_lat [] = None"
| "first_zone abs_lat ((zone, (min_lat, max_lat)) # zones) =
    (if min_lat \<le> abs_lat \<and> abs_lat \<le> max_lat then Some zone
     else first_zone abs_lat zones)"

definition get_climate_zone :: "rat \<Rightarrow> string" where
  "get_climate_zone latitude =
    (let abs_lat = \<bar>latitude\<bar>
     in case first_zone abs_lat climate_zones of
          Some zone \<Rightarrow> zone
        | None \<Rightarrow> ''temperate'')"

text \<open>\<open>_get_base_probabilities\<close> (lines 113-207); the dictionaries it returns.\<close>

definition probs_dict :: "rat \<Rightarrow> rat \<Rightarrow> rat \<Rightarrow> rat \<Rightarrow> rat \<Rightarrow> rat \<Rightarrow> rat \<Rightarrow> (string \<rightharpoonup> rat)" where
  "probs_dict hot cold wet windy unc avg_temp avg_precip =
    [''very_hot'' \<mapsto> hot, ''very_cold'' \<mapsto> cold, ''very_wet'' \<mapsto> wet,
     ''very_windy'' \<mapsto> windy, ''uncomfortable'' \<mapsto> unc,
     ''avg_temp'' \<mapsto> avg_temp, ''avg_precip'' \<mapsto> avg_precip]"

definition get_base_probabilities :: "string \<Rightarrow> int \<Rightarrow> (string \<rightharpoonup> rat)" where
  "get_base_probabilities climate_zone m =
    (let is_winter = m \<in> set [12, 1, 2];
         is_spring = m \<in> set [3, 4, 5];
         is_summer = m \<in> set [6, 7, 8]
     in if climate_zone \<in> set [''tropical'', ''subtropical''] then
          (if is_winter then probs_dict (1 / 10) 0 (3 / 10) (2 / 10) (2 / 10) 25 60
           else if is_summer then probs_dict (4 / 10) 0 (4 / 10) (3 / 10) (3 / 10) 28 80
           else probs_dict (2 / 10) 0 (3 / 10) (2 / 10) (2 / 10) 26 70)
        else if climate_zone = ''temperate'' then
          (if is_winter then probs_dict 0 (3 / 10) (4 / 10) (4 / 10) (3 / 10) 5 80
           else if is_summer then probs_dict (2 / 10) 0 (2 / 10) (3 / 10) (2 / 10) 22 50
           else if is_spring then probs_dict (1 / 10) (1 / 10) (3 / 10) (4 / 10) (2 / 10) 15 70
           else probs_dict (1 / 10) (2 / 10) (3 / 10) (3 / 10) (2 / 10) 12 60)
        else if climate_zone = ''continental'' then
          (if is_winter then probs_dict 0 (6 / 10) (2 / 10) (5 / 10) (5 / 10) (- 10) 30
           else if is_summer then probs_dict (3 / 10) 0 (3 / 10) (2 / 10) (2 / 10) 20 60
           else probs_dict (1 / 10) (3 / 10) (2 / 10) (4 / 10) (3 / 10) 5 40)
        else
          (if is_winter then probs_dict 0 (8 / 10) (1 / 10) (6 / 10) (7 / 10) (- 25) 20
           else if is_summer then probs_dict 0 (2 / 10) (2 / 10) (4 / 10) (3 / 10) 5 40
           else probs_dict 0 (5 / 10) (1 / 10) (5 / 10) (5 / 10) (- 10) 25))"

text \<open>\<open>_get_latitude_adjustments\<close> (lines 209-222).\<close>

definition get_latitude_adjustments :: "rat \<Rightarrow> int \<Rightarrow> (string \<rightharpoonup> rat)" where
  "get_latitude_adjustments latitude m =
    (let abs_lat = \<bar>latitude\<bar>
     in if abs_lat > 60 then
          [''very_cold'' \<mapsto> (if m \<in> set [12, 1, 2] then 2 / 10 else - (1 / 10)),
           ''very_hot'' \<mapsto> (if m \<in> set [6, 7, 8] then 1 / 10 else - (1 / 10))]
        else if abs_lat > 40 then
          [''very_cold'' \<mapsto> (if m \<in> set [12, 1, 2] then 1 / 10 else - (5 / 100)),
           ''very_hot'' \<mapsto> (if m \<in> set [6, 7, 8] then 1 / 10 else - (5 / 100))]
        else Map.empty)"

text \<open>\<open>_get_longitude_adjustments\<close> (lines 224-238).\<close>

definition get_longitude_adjustments :: "rat \<Rightarrow> rat \<Rightarrow> (string \<rightharpoonup> rat)" where
  "get_longitude_adjustments longitude latitude =
    (if - 100 < longitude \<and> longitude < 100 then
       [''very_hot'' \<mapsto> 1 / 10, ''very_cold'' \<mapsto> 1 / 10, ''very_windy'' \<mapsto> 1 / 10]
     else
       [''very_hot'' \<mapsto> - (1 / 10), ''very_cold'' \<mapsto> - (1 / 10), ''very_wet'' \<mapsto> 1 / 10])"

text \<open>
  List indexing \<open>xs[i]\<close>: a negative index counts from the end, an index out of range raises
  \<open>IndexError\<close>. A dictionary read \<open>d[k]\<close> raises \<open>KeyError\<close> on an absent key.
\<close>

definition py_index :: "'a list \<Rightarrow> int \<Rightarrow> py_error + 'a" where
  "py_index xs i =
    (if 0 \<le> i \<and> i < int (length xs) then Inr (xs ! nat i)
     else if i < 0 \<and> - int (length xs) \<le> i then Inr (xs ! nat (int (length xs) + i))
     else Inl IndexError)"

definition subscript :: "('k \<rightharpoonup> 'v) \<Rightarrow> 'k \<Rightarrow> py_error + 'v" where
  "subscript d k = (case d k of None \<Rightarrow> Inl KeyError | Some v \<Rightarrow> Inr v)"

definition get_month_name :: "int \<Rightarrow> py_error + string" where
  "get_month_name m =
    py_index [''January'', ''February'', ''March'', ''April'', ''May'', ''June'',
              ''July'', ''August'', ''September'', ''October'', ''November'', ''December'']
             (m - 1)"

text \<open>
  The loop of \<open>_calculate_month_probabilities\<close> (lines 93-97): every key of \<open>base_probs\<close>,
  the averages included, gets its adjusted value bounded to \<open>[0, 1]\<close>.
\<close>

definition combine_adjustments ::
  "(string \<rightharpoonup> rat) \<Rightarrow> (string \<rightharpoonup> rat) \<Rightarrow> (string \<rightharpoonup> rat) \<Rightarrow> (string \<rightharpoonup> rat)" where
  "combine_adjustments base_probs lat_adjustments lon_adjustments =
    (\<lambda>key. case base_probs key of
              None \<Rightarrow> None
            | Some b \<Rightarrow>
                Some (max 0 (min 1 (b + dict_get (lat_adjustments key) 0
                                      + dict_get (lon_adjustments key) 0))))"

text \<open>
  \<open>_calculate_month_probabilities\<close> (lines 80-111). The dictionary it returns has the
  fields of a \<open>MonthlyOutlook\<close>; its entries are evaluated in the order they are written.
\<close>

definition bind_err :: "py_error + 'a \<Rightarrow> ('a \<Rightarrow> py_error + 'b) \<Rightarrow> py_error + 'b" where
  "bind_err r f = (case r of Inl e \<Rightarrow> Inl e | Inr v \<Rightarrow> f v)"

definition calculate_month_probabilities ::
  "int \<Rightarrow> string \<Rightarrow> rat \<Rightarrow> rat \<Rightarrow> py_error + MonthlyOutlook" where
  "calculate_month_probabilities m climate_zone latitude longitude =
    (let base_probs = get_base_probabilities climate_zone m;
         lat_adjustments = get_latitude_adjustments latitude m;
         lon_adjustments = get_longitude_adjustments longitude latitude;
         final_probs = combine_adjustments base_probs lat_adjustments lon_adjustments
     in bind_err (get_month_name m) (\<lambda>mname.
        bind_err (subscript final_probs ''very_hot'') (\<lambda>hot.
        bind_err (subscript final_probs ''very_cold'') (\<lambda>cold.
        bind_err (subscript final_probs ''very_wet'') (\<lambda>wet.
        bind_err (subscript final_probs ''very_windy'') (\<lambda>windy.
        bind_err (subscript final_probs ''uncomfortable'') (\<lambda>unc.
        bind_err (subscript final_probs ''avg_temp'') (\<lambda>avg_temp.
        bind_err (subscript final_probs ''avg_precip'') (\<lambda>avg_precip.
          Inr \<lparr>month = m, month_name = mname,
               probabilities =
                 \<lparr>very_hot = py_round hot 2, very_cold = py_round cold 2,
                  very_wet = py_round wet 2, very_windy = py_round windy 2,
                  uncomfortable = py_round unc 2\<rparr>,
               avg_temperature = py_round avg_temp 1,
               avg_precipitation = py_round avg_precip 1\<rparr>)))))))))"

text \<open>
  One month of \<open>calculate_monthly_probabilities\<close> (lines 66-76): the zone is derived from the
  latitude.
\<close>

definition monthly_probabilities :: "rat \<Rightarrow> rat \<Rightarrow> int \<Rightarrow> py_error + MonthlyOutlook" where
  "monthly_probabilities latitude longitude m =
    calculate_month_probabilities m (get_climate_zone latitude) latitude longitude"

section \<open>The sample catalog (db.py) and the readings of the worked examples\<close>

text \<open>The five rows \<open>init_db\<close> inserts into the \<open>events\<close> table (lines 40-51).\<close>

definition concert :: event where
  "concert =
    \<lparr>id = ''concert'', name = ''Outdoor Concert'', category = ''sunny_friendly'',
     description = ''Music festival in open air'',
     weather_requirements = [''max_wind'' \<mapsto> 15, ''min_temp'' \<mapsto> 15, ''max_precipitation'' \<mapsto> 2],
     min_comfort_score = 70\<rparr>"

definition museum :: event where
  "museum =
    \<lparr>id = ''museum'', name = ''Museum Tour'', category = ''rain_compatible'',
     description = ''Indoor cultural experience'',
     weather_requirements = [''max_wind'' \<mapsto> 30, ''min_temp'' \<mapsto> 5, ''max_precipitation'' \<mapsto> 50],
     min_comfort_score = 30\<rparr>"

definition kite_festival :: event where
  "kite_festival =
    \<lparr>id = ''kite_festival'', name = ''Kite Festival'', category = ''wind_based'',
     description = ''Wind-powered kite flying'',
     weather_requirements =
       [''min_wind'' \<mapsto> 10, ''max_wind'' \<mapsto> 25, ''min_temp'' \<mapsto> 10, ''max_precipitation'' \<mapsto> 5],
     min_comfort_score = 60\<rparr>"

definition skiing :: event where
  "skiing =
    \<lparr>id = ''skiing'', name = ''Skiing Adventure'', category = ''cold_weather'',
     description = ''Snow sports and winter activities'',
     weather_requirements = [''max_temp'' \<mapsto> 5, ''min_precipitation'' \<mapsto> 5, ''max_wind'' \<mapsto> 20],
     min_comfort_score = 50\<rparr>"

definition hiking :: event where
  "hiking =
    \<lparr>id = ''hiking'', name = ''Mountain Hiking'', category = ''sunny_friendly'',
     description = ''Outdoor nature exploration'',
     weather_requirements =
       [''max_wind'' \<mapsto> 20, ''min_temp'' \<mapsto> 10, ''max_precipitation'' \<mapsto> 5, ''min_visibility'' \<mapsto> 5],
     min_comfort_score = 80\<rparr>"

definition sample_events :: "event list" where
  "sample_events = [concert, museum, kite_festival, skiing, hiking]"

text \<open>The empty dictionary: every field is read through its default.\<close>

definition no_fields :: weather_data where
  "no_fields =
    \<lparr>temperature = None, humidity = None, wind_speed = None, precipitation = None,
     cloud_cover = None, visibility = None, uv_index = None, condition = None\<rparr>"

text \<open>
  Example 2 of the specification: the reading, and an activity of category
  \<open>sunny_friendly\<close> with requirements \<open>{max_temp: 25, max_precipitation: 2}\<close>; the other
  fields of the activity are arbitrary.
\<close>

definition example2_weather :: weather_data where
  "example2_weather =
    \<lparr>temperature = Some 35, humidity = Some 60, wind_speed = Some 5, precipitation = Some 10,
     cloud_cover = None, visibility = Some 10, uv_index = Some 5, condition = Some ''sunny''\<rparr>"

definition example2_event :: "string \<Rightarrow> string \<Rightarrow> string \<Rightarrow> rat \<Rightarrow> event" where
  "example2_event i n d m =
    \<lparr>id = i, name = n, category = ''sunny_friendly'', description = d,
     weather_requirements = [''max_temp'' \<mapsto> 25, ''max_precipitation'' \<mapsto> 2],
     min_comfort_score = m\<rparr>"

text \<open>Example 3 of the specification: the fields not listed are absent.\<close>

definition example3_weather :: weather_data where
  "example3_weather =
    \<lparr>temperature = Some (- 3), humidity = None, wind_speed = Some 25, precipitation = Some 8,
     cloud_cover = None, visibility = None, uv_index = Some 2, condition = None\<rparr>"

text \<open>
  Draws of \<open>random()\<close> for which rounding the four probabilities and rounding the combined
  index disagree, and the draws that are all one half.
\<close>

definition rounding_draws :: draws where
  "rounding_draws =
    \<lparr>u_hot = 1 / 100, u_cold = 4 / 100, u_wet = 1 / 75, u_windy = 1 / 75,
     u_temp = 1 / 2, u_precip = 1 / 2\<rparr>"

definition middle_draws :: draws where
  "middle_draws =
    \<lparr>u_hot = 1 / 2, u_cold = 1 / 2, u_wet = 1 / 2, u_windy = 1 / 2,
     u_temp = 1 / 2, u_precip = 1 / 2\<rparr>"

section \<open>The specification's formulas\<close>

definition clamp :: "rat \<Rightarrow> rat \<Rightarrow> rat \<Rightarrow> rat" where
  "clamp lo hi x = max lo (min hi x)"

text \<open>
  The comfort index as section 4.1 of the specification words it: three sub-scores
  \<open>max(0, 100 - |actual - optimum| * weight)\<close>, averaged, minus three penalties, clamped.
\<close>

definition sub_score :: "rat \<Rightarrow> rat \<Rightarrow> rat \<Rightarrow> rat" where
  "sub_score actual optimum weight = max 0 (100 - \<bar>actual - optimum\<bar> * weight)"

definition comfort_index_spec :: "WeatherData \<Rightarrow> rat" where
  "comfort_index_spec r =
    clamp 0 100
      ((sub_score (WeatherData.temperature r) (45 / 2) 4
          + sub_score (WeatherData.humidity r) 50 (3 / 2)
          + sub_score (WeatherData.wind_speed r) 8 5) / 3
       - min 50 (WeatherData.precipitation r * 10)
       - min 30 (max 0 (WeatherData.uv_index r - 6) * 5)
       - min 20 (max 0 (10 - WeatherData.visibility r) * 2))"

text \<open>
  The input defaulting policy of section 7: temperature 20, humidity 50, wind 10,
  precipitation 0, uv_index 5, visibility 10, condition "sunny".
\<close>

definition or_default :: "'a option \<Rightarrow> 'a \<Rightarrow> 'a option" where
  "or_default field d = (case field of None \<Rightarrow> Some d | Some v \<Rightarrow> Some v)"

definition fill_defaults :: "weather_data \<Rightarrow> weather_data" where
  "fill_defaults w =
    w\<lparr>temperature := or_default (temperature w) 20,
      humidity := or_default (humidity w) 50,
      wind_speed := or_default (wind_speed w) 10,
      precipitation := or_default (precipitation w) 0,
      uv_index := or_default (uv_index w) 5,
      visibility := or_default (visibility w) 10,
      condition := or_default (condition w) ''sunny''\<rparr>"

text \<open>The invariant of section 3 on the probabilities of a monthly outlook.\<close>

definition uncomfortable_formula :: "rat \<Rightarrow> rat \<Rightarrow> rat \<Rightarrow> rat \<Rightarrow> rat" where
  "uncomfortable_formula hot cold windy wet = clamp 0 1 ((hot + cold + windy) / 3 + wet * (1 / 2))"

section \<open>Auxiliary notions\<close>

text \<open>
  What \<open>_calculate_score\<close> adds to the initial 100 before bounding, the precipitation
  penalty left out: each block's change of the score does not depend on the score so far.
\<close>

definition other_terms :: "event \<Rightarrow> weather_data \<Rightarrow> rat" where
  "other_terms ev w =
     100 + fst (temperature_scoring (weather_requirements ev) (dict_get (temperature w) 20) (0, [], []))
         + fst (wind_scoring (weather_requirements ev) (dict_get (wind_speed w) 10) (0, [], []))
         + fst (visibility_scoring (weather_requirements ev) w (0, [], []))
         + fst (category_adjustments (category ev) (dict_get (condition w) ''sunny'')
                  (dict_get (wind_speed w) 10) (dict_get (temperature w) 20) (0, [], []))
         + fst (comfort_adjustments (dict_get (humidity w) 50) (dict_get (wind_speed w) 10) (0, [], []))"

text \<open>
  The shape of every dictionary \<open>_get_base_probabilities\<close> returns: the seven keys, and one
  of four values under \<open>uncomfortable\<close>.
\<close>

definition is_probs :: "(string \<rightharpoonup> rat) \<Rightarrow> bool" where
  "is_probs d =
    (\<exists>h c we wi u t p. d = probs_dict h c we wi u t p \<and> u \<in> {2 / 10, 3 / 10, 5 / 10, 7 / 10})"


section \<open>Properties of the matcher\<close>

subsection \<open>The score of each block\<close>

lemma fst_temperature_scoring:
  "fst (temperature_scoring r t st) = fst st + fst (temperature_scoring r t (0, [], []))"
  by (cases st) (simp add: temperature_scoring_def Let_def split: option.split)

lemma fst_wind_scoring:
  "fst (wind_scoring r t st) = fst st + fst (wind_scoring r t (0, [], []))"
  by (cases st) (simp add: wind_scoring_def Let_def split: option.split)

lemma fst_precipitation_scoring:
  "r ''max_precipitation'' = Some t \<Longrightarrow> t < p \<Longrightarrow>
   fst (precipitation_scoring r p st) = fst st - (p - t) * 8"
  by (cases st) (simp add: precipitation_scoring_def)

lemma fst_visibility_scoring:
  "fst (visibility_scoring r w st) = fst st + fst (visibility_scoring r w (0, [], []))"
  by (cases st) (simp add: visibility_scoring_def Let_def split: option.split)

lemma fst_category_adjustments:
  "fst (category_adjustments c cond wind temp st) =
   fst st + fst (category_adjustments c cond wind temp (0, [], []))"
  by (cases st) (simp add: category_adjustments_def)

lemma fst_comfort_adjustments:
  "fst (comfort_adjustments h wind st) = fst st + fst (comfort_adjustments h wind (0, [], []))"
  by (cases st) (simp add: comfort_adjustments_def Let_def)

lemma fst_bound_and_summarise: "fst (bound_and_summarise st) = max 0 (min 100 (fst st))"
  by (cases st) (simp add: bound_and_summarise_def Let_def)

lemma visibility_scoring_precipitation:
  "visibility_scoring r (w\<lparr>precipitation := p\<rparr>) st = visibility_scoring r w st"
  by (simp add: visibility_scoring_def split: option.split)

lemma score_precipitation:
  assumes "weather_requirements ev ''max_precipitation'' = Some t" and "t < p"
  shows "fst (calculate_score ev (w\<lparr>precipitation := Some p\<rparr>)) =
         max 0 (min 100 (other_terms ev w - (p - t) * 8))"
proof -
  have "fst (calculate_score ev (w\<lparr>precipitation := Some p\<rparr>)) =
        max 0 (min 100 (fst (comfort_adjustments (dict_get (humidity w) 50) (dict_get (wind_speed w) 10)
           (category_adjustments (category ev) (dict_get (condition w) ''sunny'')
                  (dict_get (wind_speed w) 10) (dict_get (temperature w) 20)
             (visibility_scoring (weather_requirements ev) w
               (precipitation_scoring (weather_requirements ev) p
                 (wind_scoring (weather_requirements ev) (dict_get (wind_speed w) 10)
                   (temperature_scoring (weather_requirements ev) (dict_get (temperature w) 20)
                     (100, [], [])))))))))"
    by (simp add: calculate_score_def Let_def fst_bound_and_summarise visibility_scoring_precipitation
          dict_get_def)
  also have "\<dots> = max 0 (min 100 (other_terms ev w - (p - t) * 8))"
    apply (subst fst_comfort_adjustments)
    apply (subst fst_category_adjustments)
    apply (subst fst_visibility_scoring)
    apply (subst fst_precipitation_scoring [where t = t])
      apply (rule assms(1))
     apply (rule assms(2))
    apply (subst fst_wind_scoring)
    apply (subst fst_temperature_scoring)
    apply (simp add: other_terms_def)
    done
  finally show ?thesis .
qed

subsection \<open>Example 2\<close>

lemma example2_result:
  "calculate_score (example2_event i n d m) example2_weather =
     (6,
      [Fmt ''Temperature too high ({temp} C > {max_temp} C)'' [35, 25],
       Fmt ''Too much precipitation ({precipitation}mm > {max_precipitation}mm)'' [10, 2],
       Lit ''Poor weather conditions for this event''],
      [''Consider early morning or evening timing'',
       ''Consider indoor alternatives or wait for drier conditions''])"
  by code_simp

text \<open>
  C3. On the reading of Example 2, against an activity of category \<open>sunny_friendly\<close> with
  requirements \<open>{max_temp: 25, max_precipitation: 2}\<close>, the matcher returns the score
  \<open>6 = 100 - (35 - 25) * 3 - (10 - 2) * 8\<close>, and the last reason it appends is the summary
  of the "poor" band.
\<close>

theorem example2_score:
  "fst (calculate_score (example2_event i n d m) example2_weather) = 6
   \<and> (6 :: rat) = 100 - (35 - 25) * 3 - (10 - 2) * 8
   \<and> last (fst (snd (calculate_score (example2_event i n d m) example2_weather)))
       = Lit ''Poor weather conditions for this event''
   \<and> summary_reason (fst (calculate_score (example2_event i n d m) example2_weather))
       = Lit ''Poor weather conditions for this event''"
  by (simp add: example2_result summary_reason_def)

subsection \<open>Monotonicity in the precipitation\<close>

text \<open>
  C5, as amended. For an activity whose requirements include \<open>max_precipitation\<close> and two
  readings that differ only in their precipitation, both above the threshold: the reading
  with the higher precipitation never gets a higher score. A strict decrease is not part of
  the statement: both scores can be bounded to 100 or to 0, and in the double arithmetic of
  the source two neighbouring precipitations can round to the same score.
\<close>

theorem precipitation_monotone:
  assumes "weather_requirements ev ''max_precipitation'' = Some t"
    and "t < p1" and "p1 < p2"
  shows "fst (calculate_score ev (w\<lparr>precipitation := Some p2\<rparr>))
           \<le> fst (calculate_score ev (w\<lparr>precipitation := Some p1\<rparr>))"
proof -
  from assms have "t < p2" by simp
  note s1 = score_precipitation [OF assms(1) assms(2), of w]
  note s2 = score_precipitation [OF assms(1) \<open>t < p2\<close>, of w]
  show ?thesis unfolding s1 s2 using assms(3) by (auto simp: max_def min_def)
qed

lemma concert_scores:
  "fst (calculate_score concert (no_fields\<lparr>precipitation := Some 3\<rparr>)) = 92"
  "fst (calculate_score concert (no_fields\<lparr>precipitation := Some 4\<rparr>)) = 84"
  by code_simp+

theorem precipitation_monotone_witness:
  "weather_requirements concert ''max_precipitation'' = Some 2
   \<and> (2 :: rat) < 3 \<and> (3 :: rat) < 4
   \<and> fst (calculate_score concert (no_fields\<lparr>precipitation := Some 4\<rparr>))
       \<le> fst (calculate_score concert (no_fields\<lparr>precipitation := Some 3\<rparr>))
   \<and> fst (calculate_score concert (no_fields\<lparr>precipitation := Some 3\<rparr>)) = 92
   \<and> fst (calculate_score concert (no_fields\<lparr>precipitation := Some 4\<rparr>)) = 84"
proof -
  have h: "weather_requirements concert ''max_precipitation'' = Some 2"
    by (simp add: concert_def)
  have lt: "(2 :: rat) < 3" "(3 :: rat) < 4" by simp_all
  show ?thesis
    using h precipitation_monotone [OF h lt, of no_fields] concert_scores by simp
qed

text \<open>
  The claim as stated fails at the upper bound: for the museum tour (category
  \<open>rain_compatible\<close>, \<open>max_precipitation\<close> 50) in sunny weather the bonus of 10 keeps both
  scores at 100, not at 0, for the precipitations 50.5 and 51.
\<close>

theorem precipitation_monotone_counterexample:
  "weather_requirements museum ''max_precipitation'' = Some 50
   \<and> (50 :: rat) < 101 / 2 \<and> (101 / 2 :: rat) < 51
   \<and> fst (calculate_score museum (no_fields\<lparr>precipitation := Some (101 / 2)\<rparr>)) = 100
   \<and> fst (calculate_score museum (no_fields\<lparr>precipitation := Some 51\<rparr>)) = 100"
  by code_simp

subsection \<open>Fields the matcher never reads\<close>

lemma visibility_scoring_ignores:
  "visibility_scoring r (w\<lparr>uv_index := u, cloud_cover := c\<rparr>) st = visibility_scoring r w st"
  by (simp add: visibility_scoring_def split: option.split)

text \<open>
  C10. Two readings that differ only in \<open>uv_index\<close> and \<open>cloud_cover\<close> get the same score,
  reasons and recommendations, for every activity.
\<close>

theorem score_independent_of_uv_and_cloud:
  "calculate_score ev (w\<lparr>uv_index := u, cloud_cover := c\<rparr>) = calculate_score ev w"
  by (simp add: calculate_score_def visibility_scoring_ignores)

section \<open>Properties of the ranking\<close>

lemma collect_eq:
  "collect w evs =
     map (\<lambda>e. make_result e (calculate_score e w))
         (filter (\<lambda>e. min_comfort_score e \<le> fst (calculate_score e w)) evs)"
  by (induction evs) (simp_all add: Let_def)

lemma score_make_result: "score (make_result e st) = fst st"
  by (cases st) (simp add: make_result_def)

lemma set_filtered_events: "set (filtered_events evs cats) \<subseteq> set evs"
  by (auto simp: filtered_events_def split: option.splits)

lemma filtered_events_category:
  "e \<in> set (filtered_events evs (Some cs)) \<Longrightarrow> cs \<noteq> [] \<Longrightarrow> category e \<in> set cs"
  by (auto simp: filtered_events_def)

lemma sorted_sort_reverse:
  "sorted_wrt (\<lambda>a b. key b \<le> key a) (sort_reverse key (xs :: 'a list))"
  for key :: "'a \<Rightarrow> rat"
proof -
  have "sorted (map (\<lambda>x. - key x) (sort_key (\<lambda>x. - key x) xs))"
    by (rule sorted_sort_key)
  then show ?thesis
    by (simp add: sort_reverse_def sorted_wrt_map)
qed

lemma sort_reverse_stable:
  "filter (\<lambda>y. key y = k) (sort_reverse key xs) = filter (\<lambda>y. key y = k) xs"
  for key :: "'a \<Rightarrow> rat"
  using sort_key_stable [of "\<lambda>x. - key x" "- k" xs]
  by (simp add: sort_reverse_def)

lemma ranking_sorted:
  "sorted_wrt (\<lambda>a b. score b \<le> score a) (get_event_recommendations evs w ft cats)"
  unfolding get_event_recommendations_def
  by (rule sorted_wrt_take) (rule sorted_sort_reverse)

lemma ranking_stable:
  "prefix (filter (\<lambda>r. score r = k) (get_event_recommendations evs w ft cats))
     (filter (\<lambda>r. score r = k) (collect w (filtered_events evs cats)))"
proof -
  have "prefix (filter (\<lambda>r. score r = k) (get_event_recommendations evs w ft cats))
          (filter (\<lambda>r. score r = k) (sort_reverse score (collect w (filtered_events evs cats))))"
    unfolding get_event_recommendations_def
    by (rule filter_mono_prefix) (rule take_is_prefix)
  then show ?thesis by (simp add: sort_reverse_stable)
qed

lemma ranking_members:
  assumes "r \<in> set (get_event_recommendations evs w ft cats)"
  shows "\<exists>e \<in> set (filtered_events evs cats).
           r = make_result e (calculate_score e w) \<and> min_comfort_score e \<le> score r"
proof -
  from assms have "r \<in> set (collect w (filtered_events evs cats))"
    unfolding get_event_recommendations_def sort_reverse_def
    by (auto dest: in_set_takeD)
  then show ?thesis
    by (auto simp: collect_eq score_make_result)
qed

text \<open>
  C4. For every catalog, reading and optional category filter, each result of the ranking
  is the evaluation of a catalog entry that passes the filter and whose score reaches its
  \<open>min_comfort_score\<close>; the results are in non-increasing order of score; for each score the
  results with that score are the first of the eligible entries with that score, in catalog
  order; and there are at most 10 results.
\<close>

theorem ranking_properties:
  "(\<forall>r \<in> set (get_event_recommendations events w ftype categories).
      \<exists>e \<in> set events.
        r = make_result e (calculate_score e w)
        \<and> min_comfort_score e \<le> score r
        \<and> (\<forall>cs. categories = Some cs \<longrightarrow> cs \<noteq> [] \<longrightarrow> category e \<in> set cs))
   \<and> sorted_wrt (\<lambda>a b. score b \<le> score a) (get_event_recommendations events w ftype categories)
   \<and> (\<forall>k. prefix
          (filter (\<lambda>r. score r = k) (get_event_recommendations events w ftype categories))
          (filter (\<lambda>r. score r = k)
             (map (\<lambda>e. make_result e (calculate_score e w))
                (filter (\<lambda>e. min_comfort_score e \<le> fst (calculate_score e w))
                   (filtered_events events categories)))))
   \<and> length (get_event_recommendations events w ftype categories) \<le> 10"
proof (intro conjI ballI allI)
  fix r assume "r \<in> set (get_event_recommendations events w ftype categories)"
  then obtain e where e: "e \<in> set (filtered_events events categories)"
      "r = make_result e (calculate_score e w)" "min_comfort_score e \<le> score r"
    using ranking_members by blast
  from e(1) have "e \<in> set events"
    using set_filtered_events by blast
  moreover from e(1) have "\<forall>cs. categories = Some cs \<longrightarrow> cs \<noteq> [] \<longrightarrow> category e \<in> set cs"
    using filtered_events_category by blast
  ultimately show "\<exists>e \<in> set events.
        r = make_result e (calculate_score e w)
        \<and> min_comfort_score e \<le> score r
        \<and> (\<forall>cs. categories = Some cs \<longrightarrow> cs \<noteq> [] \<longrightarrow> category e \<in> set cs)"
    using e(2,3) by blast
next
  show "sorted_wrt (\<lambda>a b. score b \<le> score a) (get_event_recommendations events w ftype categories)"
    by (rule ranking_sorted)
next
  fix k
  show "prefix
          (filter (\<lambda>r. score r = k) (get_event_recommendations events w ftype categories))
          (filter (\<lambda>r. score r = k)
             (map (\<lambda>e. make_result e (calculate_score e w))
                (filter (\<lambda>e. min_comfort_score e \<le> fst (calculate_score e w))
                   (filtered_events events categories))))"
    using ranking_stable [of k events w ftype categories] by (simp add: collect_eq)
next
  show "length (get_event_recommendations events w ftype categories) \<le> 10"
    by (simp add: get_event_recommendations_def)
qed

lemma sample_ranking:
  "map event_id (get_event_recommendations sample_events no_fields ''short_term'' None)
     = [''concert'', ''museum'', ''kite_festival'', ''hiking'']"
  "map score (get_event_recommendations sample_events no_fields ''short_term'' None)
     = [100, 100, 100, 100]"
  by code_simp+

theorem ranking_properties_witness:
  "map event_id (get_event_recommendations sample_events no_fields ''short_term'' None)
     = [''concert'', ''museum'', ''kite_festival'', ''hiking'']
   \<and> sorted_wrt (\<lambda>a b. score b \<le> score a)
       (get_event_recommendations sample_events no_fields ''short_term'' None)
   \<and> length (get_event_recommendations sample_events no_fields ''short_term'' None) \<le> 10
   \<and> (\<exists>e. e \<in> set sample_events
        \<and> hd (get_event_recommendations sample_events no_fields ''short_term'' None)
            = make_result e (calculate_score e no_fields)
        \<and> min_comfort_score e
            \<le> score (hd (get_event_recommendations sample_events no_fields ''short_term'' None)))"
proof -
  let ?rs = "get_event_recommendations sample_events no_fields ''short_term'' None"
  have "?rs \<noteq> []"
    using sample_ranking(1) by auto
  then have "hd ?rs \<in> set ?rs" by simp
  then show ?thesis
    using ranking_properties [of sample_events no_fields "''short_term''" None] sample_ranking(1)
    by blast
qed

text \<open>
  C9. An empty list as the category filter behaves as no filter: every catalog entry is
  considered.
\<close>

theorem empty_filter_is_no_filter:
  "get_event_recommendations events w ftype (Some []) = get_event_recommendations events w ftype None
   \<and> filtered_events events (Some []) = events
   \<and> get_event_recommendations events w ftype (Some [])
       = take 10 (sort_reverse score (collect w events))"
  by (simp add: get_event_recommendations_def filtered_events_def)

section \<open>Properties of the clothing advisor\<close>

lemma fst_tips:
  "fst (forecast_type_tips ftype st) = fst st"
  "fst (humidity_tips hum st) = fst st"
  by (simp_all add: forecast_type_tips_def humidity_tips_def extend_lists_def)

lemma recommendations_get_recommendations:
  "recommendations (get_recommendations w ftype loc) =
     sort_reverse priority
       (fst (uv_rules (dict_get (uv_index w) 5)
              (wind_rules (dict_get (wind_speed w) 10)
                (precipitation_rules (dict_get (precipitation w) 0)
                  (temperature_rules (dict_get (temperature w) 20) ([], []))))))"
  by (simp add: get_recommendations_def Let_def fst_tips)

lemma example3_items:
  "recommendations (get_recommendations example3_weather ftype loc) =
     [rec JACKET 5 (Lit ''Very cold weather - heavy winter jacket essential''),
      rec GLOVES 5 (Lit ''Protect hands from freezing temperatures''),
      rec UMBRELLA 5 (Lit ''Heavy rain expected - umbrella essential''),
      rec SCARF 4 (Lit ''Protect neck and face from cold''),
      rec BOOTS 4 (Lit ''Warm, waterproof footwear essential''),
      rec BOOTS 4 (Lit ''Waterproof footwear for wet conditions''),
      rec JACKET 4 (Lit ''Waterproof jacket recommended''),
      rec JACKET 3 (Lit ''Windy conditions - windproof jacket recommended''),
      rec HAT 3 (Lit ''Secure hat to protect from wind'')]"
  unfolding recommendations_get_recommendations
  by (simp add: example3_weather_def dict_get_def uv_rules_def wind_rules_def precipitation_rules_def
        temperature_rules_def extend_lists_def sort_reverse_def rec_def)

text \<open>
  C6. On the reading of Example 3 the advisor's list has exactly three jacket entries, of
  priority 5 (the cold rule), 4 (the precipitation rule) and 3 (the wind rule); the list is
  in non-increasing order of priority; and its first element is the jacket of priority 5.
\<close>

theorem example3_jackets:
  "filter (\<lambda>r. item r = JACKET) (recommendations (get_recommendations example3_weather ftype loc)) =
     [rec JACKET 5 (Lit ''Very cold weather - heavy winter jacket essential''),
      rec JACKET 4 (Lit ''Waterproof jacket recommended''),
      rec JACKET 3 (Lit ''Windy conditions - windproof jacket recommended'')]
   \<and> map priority (recommendations (get_recommendations example3_weather ftype loc))
       = [5, 5, 5, 4, 4, 4, 4, 3, 3]
   \<and> sorted_wrt (\<lambda>a b. priority b \<le> priority a)
       (recommendations (get_recommendations example3_weather ftype loc))
   \<and> hd (recommendations (get_recommendations example3_weather ftype loc))
       = rec JACKET 5 (Lit ''Very cold weather - heavy winter jacket essential'')"
  unfolding example3_items by (simp add: rec_def)

section \<open>The defaulting of absent fields\<close>

lemma dict_get_or_default: "dict_get (or_default x d) d = dict_get x d"
  by (cases x) (simp_all add: dict_get_def or_default_def)

lemma fill_defaults_fields:
  "temperature (fill_defaults w) = or_default (temperature w) 20"
  "humidity (fill_defaults w) = or_default (humidity w) 50"
  "wind_speed (fill_defaults w) = or_default (wind_speed w) 10"
  "precipitation (fill_defaults w) = or_default (precipitation w) 0"
  "condition (fill_defaults w) = or_default (condition w) ''sunny''"
  "uv_index (fill_defaults w) = or_default (uv_index w) 5"
  "visibility (fill_defaults w) = or_default (visibility w) 10"
  by (simp_all add: fill_defaults_def)

lemma visibility_scoring_fill: "visibility_scoring r (fill_defaults w) st = visibility_scoring r w st"
  by (simp add: visibility_scoring_def fill_defaults_fields dict_get_or_default split: option.split)

lemma calculate_score_fill: "calculate_score ev (fill_defaults w) = calculate_score ev w"
  by (simp add: calculate_score_def fill_defaults_fields dict_get_or_default visibility_scoring_fill)

lemma get_recommendations_fill:
  "get_recommendations (fill_defaults w) ftype loc = get_recommendations w ftype loc"
  by (simp add: get_recommendations_def fill_defaults_fields dict_get_or_default)

text \<open>
  C8. On a mapping with absent fields the matcher and the clothing advisor return what they
  return on the mapping with the absent fields filled with the documented defaults; both are
  total functions of the mapping, so an absent field is never an error.
\<close>

theorem missing_fields_defaulted:
  "calculate_score ev (fill_defaults w) = calculate_score ev w
   \<and> get_recommendations (fill_defaults w) ftype loc = get_recommendations w ftype loc"
  by (simp add: calculate_score_fill get_recommendations_fill)

section \<open>The comfort index\<close>

text \<open>
  C7. On a fully populated reading the comfort index is the formula of section 4.1, and it
  lies between 0 and 100.
\<close>

theorem comfort_index_refines_spec:
  "calculate_comfort_index r = comfort_index_spec r
   \<and> 0 \<le> calculate_comfort_index r \<and> calculate_comfort_index r \<le> 100"
  by (simp add: calculate_comfort_index_def comfort_index_spec_def sub_score_def clamp_def Let_def)

section \<open>Properties of the seasonal probabilities\<close>

subsection \<open>Climate zones\<close>

text \<open>
  C1, as amended. The zone derived from \<open>|latitude|\<close> is tropical up to and including 23.5,
  subtropical above 23.5 up to 35, temperate above 35 up to 50, continental above 50 up to
  70, polar above 70 up to 90, and the fallback temperate above 90: each boundary belongs to
  the zone below it.
\<close>

theorem get_climate_zone_bands:
  "get_climate_zone latitude =
    (if \<bar>latitude\<bar> \<le> 47 / 2 then ''tropical''
     else if \<bar>latitude\<bar> \<le> 35 then ''subtropical''
     else if \<bar>latitude\<bar> \<le> 50 then ''temperate''
     else if \<bar>latitude\<bar> \<le> 70 then ''continental''
     else if \<bar>latitude\<bar> \<le> 90 then ''polar''
     else ''temperate'')"
proof -
  have "- (47 / 2) \<le> \<bar>latitude\<bar>"
    using abs_ge_zero [of latitude] by linarith
  then show ?thesis
    by (auto simp: get_climate_zone_def climate_zones_def Let_def)
qed

theorem get_climate_zone_bands_witness:
  "get_climate_zone 51 = ''continental'' \<and> get_climate_zone (- 80) = ''polar''
   \<and> get_climate_zone 35 = ''subtropical'' \<and> get_climate_zone 91 = ''temperate''"
  using get_climate_zone_bands [of 51] get_climate_zone_bands [of "- 80"]
    get_climate_zone_bands [of 35] get_climate_zone_bands [of 91]
  by simp

text \<open>
  The claim as stated puts the latitude 23.5 in the subtropical zone; the loop returns the
  first zone whose closed range holds it, which is the tropical one.
\<close>

theorem get_climate_zone_boundary_counterexample:
  "(47 / 2 :: rat) \<le> \<bar>47 / 2\<bar> \<and> \<bar>47 / 2 :: rat\<bar> < 35
   \<and> get_climate_zone (47 / 2) = ''tropical''
   \<and> get_climate_zone (47 / 2) \<noteq> ''subtropical''"
  by (simp add: get_climate_zone_def climate_zones_def Let_def)

subsection \<open>Rounding\<close>

lemma py_round_2_error: "\<bar>py_round x 2 - x\<bar> \<le> 1 / 200"
proof -
  define y where "y = x * 100"
  define f where "f = (of_int \<lfloor>y\<rfloor> :: rat)"
  define r where "r = (if y - f < 1 / 2 then f
         else if y - f > 1 / 2 then f + 1
         else if even \<lfloor>y\<rfloor> then f
         else f + 1)"
  have fl: "f \<le> y" "y < f + 1"
    unfolding f_def by linarith+
  have pr: "py_round x 2 = r / 100"
    by (simp add: py_round_def Let_def y_def r_def f_def)
  have xy: "x = y / 100" by (simp add: y_def)
  have ry: "\<bar>r - y\<bar> \<le> 1 / 2"
    using fl unfolding r_def by (simp add: abs_if)
  have "py_round x 2 - x = (r - y) / 100"
    by (simp only: pr) (simp add: xy diff_divide_distrib)
  then have "\<bar>py_round x 2 - x\<bar> = \<bar>r - y\<bar> / 100"
    by (simp only: abs_divide)
  with ry show ?thesis by simp
qed

lemma py_round_table_values:
  "py_round (max 0 (min 1 (2 / 10))) 2 = 2 / 10"
  "py_round (max 0 (min 1 (3 / 10))) 2 = 3 / 10"
  "py_round (max 0 (min 1 (5 / 10))) 2 = 5 / 10"
  "py_round (max 0 (min 1 (7 / 10))) 2 = 7 / 10"
  by code_simp+

lemma py_round_table:
  "u \<in> {2 / 10, 3 / 10, 5 / 10, 7 / 10} \<Longrightarrow> py_round (max 0 (min 1 u)) 2 = u"
  using py_round_table_values by blast

subsection \<open>The outlook of the weather service\<close>

lemma uniform_bounds:
  assumes "a \<le> b" "0 \<le> u" "u \<le> 1"
  shows "a \<le> uniform a b u \<and> uniform a b u \<le> b"
proof -
  from assms have "0 \<le> (b - a) * u" by simp
  moreover from assms have "(b - a) * u \<le> (b - a) * 1"
    by (intro mult_left_mono) simp_all
  ultimately show ?thesis by (simp add: uniform_def)
qed

lemma base_draws_nonneg:
  assumes "0 \<le> u_hot r" "u_hot r \<le> 1" "0 \<le> u_cold r" "u_cold r \<le> 1"
    "0 \<le> u_wet r" "u_wet r \<le> 1" "0 \<le> u_windy r" "u_windy r \<le> 1"
    and "base_draws m lat r = (h, c, we, wi)"
  shows "0 \<le> h \<and> 0 \<le> c \<and> 0 \<le> we \<and> 0 \<le> wi"
proof -
  have u: "\<And>a b u. a \<le> b \<Longrightarrow> 0 \<le> a \<Longrightarrow> 0 \<le> u \<Longrightarrow> u \<le> 1 \<Longrightarrow> 0 \<le> uniform a b u"
    using uniform_bounds by (meson order_trans)
  from assms(9) show ?thesis
    unfolding base_draws_def
    by (auto split: prod.splits if_splits intro!: u assms(1-8))
qed

lemma formula_lipschitz:
  assumes "\<bar>h' - h\<bar> \<le> e" "\<bar>c' - c\<bar> \<le> e" "\<bar>wi' - wi\<bar> \<le> e" "\<bar>we' - we\<bar> \<le> e"
  shows "\<bar>uncomfortable_formula h' c' wi' we' - uncomfortable_formula h c wi we\<bar> \<le> 3 * e / 2"
  using assms unfolding uncomfortable_formula_def clamp_def
  by (auto simp: max_def min_def abs_if field_simps split: if_splits)

lemma services_outlook:
  assumes "0 \<le> u_hot r" "u_hot r \<le> 1" "0 \<le> u_cold r" "u_cold r \<le> 1"
    "0 \<le> u_wet r" "u_wet r \<le> 1" "0 \<le> u_windy r" "u_windy r \<le> 1"
    and bd: "base_draws m lat r = (h, c, we, wi)"
  shows "uncomfortable (probabilities (generate_monthly_outlook m mname lat lon r))
           = py_round (uncomfortable_formula h c wi we) 2"
    and "\<bar>uncomfortable (probabilities (generate_monthly_outlook m mname lat lon r))
          - uncomfortable_formula
              (very_hot (probabilities (generate_monthly_outlook m mname lat lon r)))
              (very_cold (probabilities (generate_monthly_outlook m mname lat lon r)))
              (very_windy (probabilities (generate_monthly_outlook m mname lat lon r)))
              (very_wet (probabilities (generate_monthly_outlook m mname lat lon r)))\<bar> \<le> 1 / 80"
proof -
  have nn: "0 \<le> h \<and> 0 \<le> c \<and> 0 \<le> we \<and> 0 \<le> wi"
    using assms by (rule base_draws_nonneg)
  then have "0 \<le> (h + c + wi) / 3 + we * (1 / 2)" by simp
  then have mn: "min 1 ((h + c + wi) / 3 + we * (1 / 2)) = uncomfortable_formula h c wi we"
    by (simp add: uncomfortable_formula_def clamp_def max_def min_def)
  have fields:
    "uncomfortable (probabilities (generate_monthly_outlook m mname lat lon r))
       = py_round (min 1 ((h + c + wi) / 3 + we * (1 / 2))) 2"
    "very_hot (probabilities (generate_monthly_outlook m mname lat lon r)) = py_round h 2"
    "very_cold (probabilities (generate_monthly_outlook m mname lat lon r)) = py_round c 2"
    "very_windy (probabilities (generate_monthly_outlook m mname lat lon r)) = py_round wi 2"
    "very_wet (probabilities (generate_monthly_outlook m mname lat lon r)) = py_round we 2"
    by (simp_all add: generate_monthly_outlook_def bd Let_def split: prod.split)
  show eq: "uncomfortable (probabilities (generate_monthly_outlook m mname lat lon r))
           = py_round (uncomfortable_formula h c wi we) 2"
    by (simp only: fields mn)
  have a: "\<bar>py_round (uncomfortable_formula h c wi we) 2 - uncomfortable_formula h c wi we\<bar> \<le> 1 / 200"
    by (rule py_round_2_error)
  have b: "\<bar>uncomfortable_formula (py_round h 2) (py_round c 2) (py_round wi 2) (py_round we 2)
            - uncomfortable_formula h c wi we\<bar> \<le> 3 * (1 / 200) / 2"
    by (rule formula_lipschitz) (rule py_round_2_error)+
  show "\<bar>uncomfortable (probabilities (generate_monthly_outlook m mname lat lon r))
          - uncomfortable_formula
              (very_hot (probabilities (generate_monthly_outlook m mname lat lon r)))
              (very_cold (probabilities (generate_monthly_outlook m mname lat lon r)))
              (very_windy (probabilities (generate_monthly_outlook m mname lat lon r)))
              (very_wet (probabilities (generate_monthly_outlook m mname lat lon r)))\<bar> \<le> 1 / 80"
    unfolding eq fields(2-5) using a b by linarith
qed

subsection \<open>The outlook of the seasonal model\<close>

lemma probs_dict_lookup:
  "probs_dict h c we wi u t p ''very_hot'' = Some h"
  "probs_dict h c we wi u t p ''very_cold'' = Some c"
  "probs_dict h c we wi u t p ''very_wet'' = Some we"
  "probs_dict h c we wi u t p ''very_windy'' = Some wi"
  "probs_dict h c we wi u t p ''uncomfortable'' = Some u"
  "probs_dict h c we wi u t p ''avg_temp'' = Some t"
  "probs_dict h c we wi u t p ''avg_precip'' = Some p"
  by (simp_all add: probs_dict_def)

lemma is_probs_if: "is_probs a \<Longrightarrow> is_probs b \<Longrightarrow> is_probs (if x then a else b)"
  by simp

lemma is_probs_dict:
  "u \<in> {2 / 10, 3 / 10, 5 / 10, 7 / 10} \<Longrightarrow> is_probs (probs_dict h c we wi u t p)"
  unfolding is_probs_def by blast

lemma base_is_probs: "is_probs (get_base_probabilities z m)"
  unfolding get_base_probabilities_def Let_def
  by (intro is_probs_if is_probs_dict) simp_all

lemma adjustments_uncomfortable:
  "get_latitude_adjustments lat m ''uncomfortable'' = None"
  "get_longitude_adjustments lon lat ''uncomfortable'' = None"
  by (simp_all add: get_latitude_adjustments_def get_longitude_adjustments_def Let_def)

lemma month_name_ok: "1 \<le> m \<Longrightarrow> m \<le> 12 \<Longrightarrow> \<exists>n. get_month_name m = Inr n"
  by (simp add: get_month_name_def py_index_def)

lemma ml_outlook:
  assumes "1 \<le> m" "m \<le> 12"
  shows "\<exists>out. calculate_month_probabilities m z lat lon = Inr out
          \<and> get_base_probabilities z m ''uncomfortable'' = Some (uncomfortable (probabilities out))"
proof -
  obtain n where n: "get_month_name m = Inr n"
    using month_name_ok [OF assms] by blast
  obtain h c we wi u t p where d: "get_base_probabilities z m = probs_dict h c we wi u t p"
    and u: "u \<in> {2 / 10, 3 / 10, 5 / 10, 7 / 10}"
    using base_is_probs [of z m] unfolding is_probs_def by blast
  have "py_round (max 0 (min 1 u)) 2 = u"
    using u by (rule py_round_table)
  then show ?thesis
    by (simp add: calculate_month_probabilities_def Let_def n d bind_err_def subscript_def
          combine_adjustments_def probs_dict_lookup adjustments_uncomfortable dict_get_def)
qed

subsection \<open>The invariant on the uncomfortable probability\<close>

text \<open>
  C2, as amended. Let the values \<open>random()\<close> returns lie between 0 and 1 and the month
  between 1 and 12. In a \<open>MonthlyOutlook\<close> of the weather service, the published
  uncomfortable probability is the formula \<open>clamp01((very_hot + very_cold + very_windy) / 3 +
  very_wet * 0.5)\<close> of the probabilities as drawn, rounded to two decimals; it is within 0.0125
  of the formula of the published, rounded probabilities. In an outlook of the seasonal
  model, the published uncomfortable probability is the entry of the zone and season table,
  which no adjustment changes.
\<close>

theorem uncomfortable_published:
  assumes "0 \<le> u_hot r" "u_hot r \<le> 1" "0 \<le> u_cold r" "u_cold r \<le> 1"
    "0 \<le> u_wet r" "u_wet r \<le> 1" "0 \<le> u_windy r" "u_windy r \<le> 1"
    and "1 \<le> m" "m \<le> 12"
  shows "(case base_draws m lat r of (hot, cold, wet, windy) \<Rightarrow>
            uncomfortable (probabilities (generate_monthly_outlook m mname lat lon r))
              = py_round (uncomfortable_formula hot cold windy wet) 2)
       \<and> \<bar>uncomfortable (probabilities (generate_monthly_outlook m mname lat lon r))
          - uncomfortable_formula
              (very_hot (probabilities (generate_monthly_outlook m mname lat lon r)))
              (very_cold (probabilities (generate_monthly_outlook m mname lat lon r)))
              (very_windy (probabilities (generate_monthly_outlook m mname lat lon r)))
              (very_wet (probabilities (generate_monthly_outlook m mname lat lon r)))\<bar> \<le> 1 / 80
       \<and> (\<exists>out. monthly_probabilities lat lon m = Inr out
             \<and> get_base_probabilities (get_climate_zone lat) m ''uncomfortable''
                 = Some (uncomfortable (probabilities out)))"
proof -
  obtain h c we wi where bd: "base_draws m lat r = (h, c, we, wi)"
    by (cases "base_draws m lat r") auto
  note so = services_outlook [OF assms(1-8) bd, of mname lon]
  from so(1) have "(case base_draws m lat r of (hot, cold, wet, windy) \<Rightarrow>
            uncomfortable (probabilities (generate_monthly_outlook m mname lat lon r))
              = py_round (uncomfortable_formula hot cold windy wet) 2)"
    by (simp add: bd)
  moreover note so(2)
  moreover have "\<exists>out. monthly_probabilities lat lon m = Inr out
             \<and> get_base_probabilities (get_climate_zone lat) m ''uncomfortable''
                 = Some (uncomfortable (probabilities out))"
    unfolding monthly_probabilities_def using assms(9,10) by (rule ml_outlook)
  ultimately show ?thesis by blast
qed

lemma middle_outlook:
  "uncomfortable (probabilities (generate_monthly_outlook 7 ''July'' 10 0 middle_draws)) = 46 / 100"
  "very_hot (probabilities (generate_monthly_outlook 7 ''July'' 10 0 middle_draws)) = 6 / 10"
  "monthly_probabilities 10 0 7 =
     Inr \<lparr>month = 7, month_name = ''July'',
          probabilities = \<lparr>very_hot = 5 / 10, very_cold = 1 / 10, very_wet = 4 / 10,
                           very_windy = 4 / 10, uncomfortable = 3 / 10\<rparr>,
          avg_temperature = 1, avg_precipitation = 1\<rparr>"
  by code_simp+

theorem uncomfortable_published_witness:
  "(0 :: rat) \<le> 1 / 2 \<and> (1 / 2 :: rat) \<le> 1 \<and> (1 :: int) \<le> 7 \<and> (7 :: int) \<le> 12
   \<and> uncomfortable (probabilities (generate_monthly_outlook 7 ''July'' 10 0 middle_draws)) = 46 / 100
   \<and> \<bar>46 / 100
        - uncomfortable_formula
            (very_hot (probabilities (generate_monthly_outlook 7 ''July'' 10 0 middle_draws)))
            (very_cold (probabilities (generate_monthly_outlook 7 ''July'' 10 0 middle_draws)))
            (very_windy (probabilities (generate_monthly_outlook 7 ''July'' 10 0 middle_draws)))
            (very_wet (probabilities (generate_monthly_outlook 7 ''July'' 10 0 middle_draws)))\<bar>
       \<le> 1 / 80
   \<and> get_base_probabilities (get_climate_zone 10) 7 ''uncomfortable'' = Some (3 / 10)"
proof -
  have u: "0 \<le> u_hot middle_draws" "u_hot middle_draws \<le> 1"
    "0 \<le> u_cold middle_draws" "u_cold middle_draws \<le> 1"
    "0 \<le> u_wet middle_draws" "u_wet middle_draws \<le> 1"
    "0 \<le> u_windy middle_draws" "u_windy middle_draws \<le> 1"
    by (simp_all add: middle_draws_def)
  have m: "(1 :: int) \<le> 7" "(7 :: int) \<le> 12" by simp_all
  show ?thesis
    using uncomfortable_published [OF u m, where lat = 10 and mname = "''July''" and lon = 0] middle_outlook(1,3)
    by auto
qed

text \<open>
  The claim as stated fails in both producers. The seasonal model at latitude 0, longitude
  0, January publishes the table entry 0.2 where the formula of its published probabilities
  gives 0.35. The weather service, for July at latitude 10 with draws that give the
  probabilities 0.404, 0.004, 0.104 and 0.204, publishes 0.26 where the formula of its
  published probabilities gives 0.25.
\<close>

theorem uncomfortable_invariant_counterexample:
  "monthly_probabilities 0 0 1 =
     Inr \<lparr>month = 1, month_name = ''January'',
          probabilities = \<lparr>very_hot = 2 / 10, very_cold = 1 / 10, very_wet = 3 / 10,
                           very_windy = 3 / 10, uncomfortable = 2 / 10\<rparr>,
          avg_temperature = 1, avg_precipitation = 1\<rparr>
   \<and> uncomfortable_formula (2 / 10) (1 / 10) (3 / 10) (3 / 10) = 7 / 20
   \<and> probabilities (generate_monthly_outlook 7 ''July'' 10 0 rounding_draws) =
       \<lparr>very_hot = 40 / 100, very_cold = 0, very_wet = 10 / 100,
        very_windy = 20 / 100, uncomfortable = 26 / 100\<rparr>
   \<and> uncomfortable_formula (40 / 100) 0 (20 / 100) (10 / 100) = 25 / 100"
  by code_simp

end
